theory Spec2Isabelle
  imports Complex_Main "HOL-Library.Char_ord" "HOL-Library.List_Lexorder" "HOL-Library.Sublist"
begin

section \<open>Values and errors\<close>

text \<open>
  The notebook computes on torch tensors of 32-bit floats. Amplitudes, cutoffs and kernel
  values are modelled as real numbers. What IEEE division does at a zero divisor is kept,
  because the normalisation step depends on it. The two reductions of the normalisation
  step, \<open>torch.mean\<close> and \<open>torch.std\<close>, round in float32 and do not return the exact mean
  and deviation in general; the segmenter therefore takes them as parameters \<open>mean\<close> and
  \<open>std\<close>, and nothing below depends on what they return unless it says so. A tensor of
  shape \<open>(1, n)\<close> is the list of its \<open>n\<close> entries, a batch of shape \<open>(B, 1, n)\<close> the list of
  its \<open>B\<close> rows.

  Every Python exception the modelled code can raise is a value of \<open>error\<close>.
\<close>

datatype error =
    NameError
  | UnboundLocalError
  | IndexError
  | RuntimeError
  | ZeroDivisionError
  | ValueError

datatype tfloat = Val real | PosInf | NegInf | NaN

text \<open>\<open>torch.max\<close> of a non-empty one-dimensional tensor (it raises on an empty one, which
  the caller below checks first).\<close>

fun torch_max :: "real list \<Rightarrow> real" where
  "torch_max [] = 0"
| "torch_max (x # xs) = fold max xs x"

text \<open>
  The two reductions computed without rounding: the mean, and the standard deviation with
  Bessel's correction (divisor \<open>n - 1\<close>, NaN with fewer than two entries). They are what
  \<open>torch.mean\<close> and \<open>torch.std\<close> return on a chunk whose float32 sums and quotients are
  exact, such as a chunk of equal small integers, and they are used below on such chunks
  only.
\<close>

definition exact_mean :: "real list \<Rightarrow> real" where
  "exact_mean s = sum_list s / real (length s)"

definition exact_std :: "real list \<Rightarrow> tfloat" where
  "exact_std s =
     (if length s \<le> 1 then NaN
      else Val (sqrt (sum_list (map (\<lambda>v. (v - exact_mean s)\<^sup>2) s) / real (length s - 1))))"

text \<open>Division of a finite value by the standard deviation, as IEEE 754 defines it: no
  exception, \<open>0/0\<close> is NaN and \<open>a/0\<close> is an infinity of the sign of \<open>a\<close>. The
  dividend is a difference of two floats, which is zero exactly when they are equal and has
  the sign of the exact difference otherwise.\<close>

fun tdiv :: "real \<Rightarrow> tfloat \<Rightarrow> tfloat" where
  "tdiv a (Val s) =
     (if s = 0 then (if a = 0 then NaN else if 0 < a then PosInf else NegInf)
      else Val (a / s))"
| "tdiv a PosInf = Val 0"
| "tdiv a NegInf = Val 0"
| "tdiv a NaN = NaN"

section \<open>Segmenter: \<open>SincNetDataset._prepare_sample\<close>\<close>

text \<open>
  \<open>torch.tensor_split(input, sections, dim)\<close> with an integer \<open>sections\<close>: a non-positive
  count is a RuntimeError; otherwise the loop cuts \<open>sections\<close> consecutive slices, the first
  \<open>size mod sections\<close> of them one entry longer than the others, which have
  \<open>size div sections\<close> entries.
\<close>

fun split_loop :: "'a list \<Rightarrow> nat \<Rightarrow> nat \<Rightarrow> nat \<Rightarrow> nat \<Rightarrow> 'a list list" where
  "split_loop xs q r i 0 = []"
| "split_loop xs q r i (Suc m) =
     (let sz = (if i < r then q + 1 else q)
      in take sz xs # split_loop (drop sz xs) q r (Suc i) m)"

definition tensor_split :: "'a list \<Rightarrow> int \<Rightarrow> error + 'a list list" where
  "tensor_split xs sections =
     (if sections \<le> 0 then Inl RuntimeError
      else Inr (split_loop xs (length xs div nat sections) (length xs mod nat sections)
                  0 (nat sections)))"

text \<open>The noise gate of the first line of \<open>_prepare_sample\<close>:
  \<^verbatim>\<open>sample[0][sample[0] > self.trashhold*torch.max(torch.abs(sample[0]))]\<close>.
  The mask compares the signed sample with the bound, strictly.\<close>

definition noise_bound :: "real \<Rightarrow> real list \<Rightarrow> real" where
  "noise_bound trashhold s = trashhold * torch_max (map abs s)"

definition denoise :: "real \<Rightarrow> real list \<Rightarrow> real list" where
  "denoise trashhold s = filter (\<lambda>v. noise_bound trashhold s < v) s"

text \<open>The last loop of \<open>_prepare_sample\<close>, on one chunk: \<open>mean s\<close> and \<open>std s\<close> are the
  values \<open>torch.mean\<close> and \<open>torch.std\<close> return for it.\<close>

definition normalize_segment ::
  "(real list \<Rightarrow> real) \<Rightarrow> (real list \<Rightarrow> tfloat) \<Rightarrow> real list \<Rightarrow> tfloat list" where
  "normalize_segment mean std s = map (\<lambda>v. tdiv (v - mean s) (std s)) s"

text \<open>
  \<open>_prepare_sample(self, sample, sample_rate)\<close>, with the two reductions as the first
  arguments. \<open>sample\<close> has shape (channels, time).
  \<open>number\<close> is the product \<open>wavetime * sample_rate\<close> as the code computes it, a float that is
  never rounded. The name \<open>samples\<close> is bound only inside the \<open>if\<close>; the loop after it reads
  \<open>samples\<close> in either case, which is an UnboundLocalError when the branch was not taken.
  \<open>len // number\<close> with a float zero divisor is a ZeroDivisionError.
\<close>

definition prepare_sample ::
  "(real list \<Rightarrow> real) \<Rightarrow> (real list \<Rightarrow> tfloat) \<Rightarrow>
   real \<Rightarrow> real \<Rightarrow> real list list \<Rightarrow> nat \<Rightarrow> error + tfloat list list" where
  "prepare_sample mean std wavetime trashhold sample sample_rate =
     (case sample of
        [] \<Rightarrow> Inl IndexError
      | s0 # _ \<Rightarrow>
          if s0 = [] then Inl RuntimeError
          else
            let clean = denoise trashhold s0;
                number = wavetime * real sample_rate
            in if number < real (length clean) then
                 (if number = 0 then Inl ZeroDivisionError
                  else
                    case tensor_split clean (\<lfloor>real (length clean) / number\<rfloor> + 1) of
                      Inl e \<Rightarrow> Inl e
                    | Inr samples \<Rightarrow>
                        Inr (map (normalize_segment mean std) (butlast samples)))
               else Inl UnboundLocalError)"


text \<open>The denoising rule in the words of the specification: a sample is kept when its
  absolute amplitude is at least the bound.\<close>

definition spec_denoise :: "real \<Rightarrow> real list \<Rightarrow> real list" where
  "spec_denoise trashhold s = filter (\<lambda>v. trashhold * Max (abs ` set s) \<le> \<bar>v\<bar>) s"

section \<open>Sinc layer: \<open>Custom.forward\<close>\<close>

text \<open>
  \<open>torch.rand\<close> reads the global generator. The generator is modelled by the stream of
  uniform draws it will deliver from its current state; a call that asks for \<open>k\<close> values
  takes the first \<open>k\<close> and leaves the rest. \<open>rng_of\<close> builds a stream from a finite prefix.
\<close>

type_synonym rng = "nat \<Rightarrow> real"

definition torch_rand :: "nat \<Rightarrow> rng \<Rightarrow> real list \<times> rng" where
  "torch_rand k g = (map g [0..<k], \<lambda>i. g (i + k))"

definition rng_of :: "real list \<Rightarrow> rng" where
  "rng_of us i = (if i < length us then us ! i else 0)"

text \<open>\<open>torch.sinc\<close> is the normalised sinc: \<open>sin(\<pi>x)/(\<pi>x)\<close>, and 1 at 0.\<close>

definition torch_sinc :: "real \<Rightarrow> real" where
  "torch_sinc x = (if x = 0 then 1 else sin (pi * x) / (pi * x))"

text \<open>\<open>torch.hamming_window(L)\<close>, periodic by default: a window of one point is \<open>[1]\<close>,
  otherwise \<open>w[n] = 0.54 - 0.46 cos(2\<pi>n/L)\<close>.\<close>

definition hamming_window :: "nat \<Rightarrow> real list" where
  "hamming_window l =
     (if l = 1 then [1]
      else map (\<lambda>n. 54 / 100 - 46 / 100 * cos (2 * pi * real n / real l)) [0..<l])"

text \<open>The two parameter lines of \<open>forward\<close>:
  \<^verbatim>\<open>f_1 = torch.rand(F, 1, 1) * sample_rate / 2\<close> and
  \<^verbatim>\<open>f_2 = f_1 + torch.abs(f_1 - torch.rand(F, 1, 1) * sample_rate / 2)\<close>.
  Both are drawn inside \<open>forward\<close>, so each pass consumes \<open>2F\<close> draws.\<close>

definition filter_params :: "nat \<Rightarrow> rng \<Rightarrow> real \<Rightarrow> (real list \<times> real list) \<times> rng" where
  "filter_params number_of_filters g sample_rate =
     (let (r1, g1) = torch_rand number_of_filters g;
          f_1 = map (\<lambda>u. u * sample_rate / 2) r1;
          (r2, g2) = torch_rand number_of_filters g1;
          f_2 = map (\<lambda>(a, u). a + \<bar>a - u * sample_rate / 2\<bar>) (zip f_1 r2)
      in ((f_1, f_2), g2))"

text \<open>One entry of \<open>g_filter\<close>:
  \<^verbatim>\<open>2*f_2*torch.sinc(2*PI*f_2*n) - 2*f_1*torch.sinc(2*PI*f_1*n)\<close>.\<close>

definition g_filter :: "real \<Rightarrow> real \<Rightarrow> nat \<Rightarrow> real" where
  "g_filter f_1 f_2 n =
     2 * f_2 * torch_sinc (2 * pi * f_2 * real n) - 2 * f_1 * torch_sinc (2 * pi * f_1 * real n)"

text \<open>\<open>result_filters = g_filter * hamming_window\<close>, of shape \<open>(F, 1, L)\<close>.\<close>

definition result_filters :: "real list \<Rightarrow> real list \<Rightarrow> nat \<Rightarrow> real list list" where
  "result_filters f_1 f_2 l =
     map (\<lambda>(a, b). map (\<lambda>(n, w). g_filter a b n * w) (zip [0..<l] (hamming_window l)))
       (zip f_1 f_2)"

text \<open>The kernel formula in the words of the specification, with the unnormalised sinc.\<close>

definition spec_sinc :: "real \<Rightarrow> real" where
  "spec_sinc x = (if x = 0 then 1 else sin x / x)"

definition spec_g :: "real \<Rightarrow> real \<Rightarrow> nat \<Rightarrow> real" where
  "spec_g f_1 f_2 n =
     2 * f_2 * spec_sinc (2 * pi * f_2 * real n) - 2 * f_1 * spec_sinc (2 * pi * f_1 * real n)"

text \<open>
  \<open>F.conv1d(x, weight)\<close> with stride 1, no padding, no dilation, one input channel: a
  cross-correlation. torch raises a RuntimeError when the kernel is longer than the input;
  an empty weight is rejected as well.
\<close>

definition correlate :: "real list \<Rightarrow> real list \<Rightarrow> real list" where
  "correlate row k =
     map (\<lambda>t. sum_list (map (\<lambda>j. row ! (t + j) * k ! j) [0..<length k]))
       [0..<length row - length k + 1]"

definition conv1d :: "real list list \<Rightarrow> real list list \<Rightarrow> error + real list list list" where
  "conv1d x weight =
     (if weight = [] \<or> list_ex (\<lambda>k. k = []) weight then Inl RuntimeError
      else if list_ex (\<lambda>row. list_ex (\<lambda>k. length row < length k) weight) x
      then Inl RuntimeError
      else Inr (map (\<lambda>row. map (correlate row) weight) x))"

text \<open>
  \<open>Custom.forward(self, x, sample_rate)\<close>, with \<open>self.number_of_filters\<close> and \<open>self.L\<close>
  as the first two arguments, the generator as the third, \<open>sample_rate\<close> a scalar, the
  module-level names the method reads (\<open>torch\<close>, \<open>F\<close>, \<open>PI\<close>, \<open>DEVICE\<close>) bound and
  all tensors on one device. \<open>forward_filters\<close> is the value of the local \<open>result_filters\<close>,
  \<open>forward_results\<close> the value of the local \<open>results\<close>. The return statement reads the name
  \<open>resultsl\<close>, which is bound nowhere: a NameError.
\<close>

definition forward_filters :: "nat \<Rightarrow> nat \<Rightarrow> rng \<Rightarrow> real \<Rightarrow> real list list" where
  "forward_filters number_of_filters l g sample_rate =
     (let ((f_1, f_2), g') = filter_params number_of_filters g sample_rate
      in result_filters f_1 f_2 l)"

definition forward_results ::
  "nat \<Rightarrow> nat \<Rightarrow> rng \<Rightarrow> real list list \<Rightarrow> real \<Rightarrow> error + real list list list" where
  "forward_results number_of_filters l g x sample_rate =
     conv1d x (forward_filters number_of_filters l g sample_rate)"

definition forward ::
  "nat \<Rightarrow> nat \<Rightarrow> rng \<Rightarrow> real list list \<Rightarrow> real \<Rightarrow> error + real list list list" where
  "forward number_of_filters l g x sample_rate =
     (case forward_results number_of_filters l g x sample_rate of
        Inl e \<Rightarrow> Inl e
      | Inr results \<Rightarrow> Inl NameError)"

section \<open>Dataset: \<open>SincNetDataset\<close>\<close>

text \<open>
  A path is the list of its components. \<open>path.parent.name\<close> is the component before the
  last, or the empty string when there is none. Lists of strings are compared as Python
  compares the parts of POSIX paths: lexicographically, characters by code.
\<close>

type_synonym path = "string list"

definition parent_name :: "path \<Rightarrow> string" where
  "parent_name p = (case rev p of _ # d # _ \<Rightarrow> d | _ \<Rightarrow> [])"

definition DATA_MODES :: "string list" where
  "DATA_MODES = [''train'', ''val'', ''test'']"

text \<open>Subscripting a Python list: positions \<open>0 .. n-1\<close> from the front, \<open>-n .. -1\<close> from
  the back, IndexError elsewhere.\<close>

definition py_get :: "'a list \<Rightarrow> int \<Rightarrow> error + 'a" where
  "py_get xs i =
     (if 0 \<le> i \<and> i < int (length xs) then Inr (xs ! nat i)
      else if i < 0 \<and> - int (length xs) \<le> i then Inr (xs ! nat (int (length xs) + i))
      else Inl IndexError)"

text \<open>
  The object after \<open>__init__\<close>. \<open>classes\<close> is the fitted state of the \<open>LabelEncoder\<close>:
  the distinct labels in ascending order. In test mode no labels are collected and the
  encoder stays unfitted.
\<close>

record SincNetDataset =
  files :: "path list"
  wavetime :: real
  trashhold :: real
  mode :: string
  labels :: "string list"
  classes :: "string list"

definition init :: "path list \<Rightarrow> string \<Rightarrow> real \<Rightarrow> real \<Rightarrow> error + SincNetDataset" where
  "init fs m wt th =
     (if m \<in> set DATA_MODES then
        (let sorted_files = sort fs;
             ls = (if m = ''test'' then [] else map parent_name sorted_files)
         in Inr \<lparr>files = sorted_files, wavetime = wt, trashhold = th, mode = m,
                 labels = ls, classes = sort (remdups ls)\<rparr>)
      else Inl NameError)"

text \<open>\<open>label_encoder.transform([label]).item()\<close>: the position of the label among the
  classes, a ValueError for a label the encoder has not seen.\<close>

fun index_of :: "'a \<Rightarrow> 'a list \<Rightarrow> nat" where
  "index_of a [] = 0"
| "index_of a (x # xs) = (if x = a then 0 else Suc (index_of a xs))"

definition transform :: "string list \<Rightarrow> string \<Rightarrow> error + nat" where
  "transform cs label = (if label \<in> set cs then Inr (index_of label cs) else Inl ValueError)"

text \<open>
  \<open>__getitem__(self, index)\<close>, after the two reductions that \<open>_prepare_sample\<close> takes.
  \<open>load\<close> stands for \<open>torchaudio.load\<close> on the file system:
  the waveform of shape (channels, time) and the sample rate of a file, or nothing for a file
  that cannot be read (a RuntimeError). The two \<open>FloatTensor\<close>s repeat the sample rate and the
  label id once per segment.
\<close>

datatype item =
    Test_item "tfloat list list" "real list"
  | Train_item "tfloat list list" "real list" "real list"

definition getitem ::
  "(real list \<Rightarrow> real) \<Rightarrow> (real list \<Rightarrow> tfloat) \<Rightarrow>
   (path \<Rightarrow> (real list list \<times> nat) option) \<Rightarrow> SincNetDataset \<Rightarrow> int \<Rightarrow> error + item" where
  "getitem mean std load self index =
     (case py_get (files self) index of
        Inl e \<Rightarrow> Inl e
      | Inr file \<Rightarrow>
          (case load file of
             None \<Rightarrow> Inl RuntimeError
           | Some (x0, f0) \<Rightarrow>
               (case prepare_sample mean std (wavetime self) (trashhold self) x0 f0 of
                  Inl e \<Rightarrow> Inl e
                | Inr x \<Rightarrow>
                    let f = replicate (length x) (real f0)
                    in if mode self = ''test'' then Inr (Test_item x f)
                       else
                         (case py_get (labels self) index of
                            Inl e \<Rightarrow> Inl e
                          | Inr label \<Rightarrow>
                              (case transform (classes self) label of
                                 Inl e \<Rightarrow> Inl e
                               | Inr y \<Rightarrow>
                                   Inr (Train_item x f (replicate (length x) (real y))))))))"

section \<open>Properties of the segmenter\<close>

lemma split_loop_numeral:
  "split_loop xs q r i (numeral k) =
     (let sz = (if i < r then q + 1 else q)
      in take sz xs # split_loop (drop sz xs) q r (Suc i) (pred_numeral k))"
  by (simp add: numeral_eq_Suc)

lemma length_split_loop: "length (split_loop xs q r i m) = m"
  by (induction m arbitrary: xs i) (simp_all add: Let_def)

lemma map_length_split_loop:
  "length xs = m * q + (r - i) \<Longrightarrow> r \<le> i + m \<Longrightarrow>
   map length (split_loop xs q r i m) = map (\<lambda>j. if j < r then q + 1 else q) [i..<i + m]"
proof (induction m arbitrary: xs i)
  case 0
  then show ?case by simp
next
  case (Suc m)
  let ?sz = "if i < r then q + 1 else q"
  have len: "length (drop ?sz xs) = m * q + (r - Suc i)"
    using Suc.prems by auto
  have "map length (split_loop (drop ?sz xs) q r (Suc i) m)
        = map (\<lambda>j. if j < r then q + 1 else q) [Suc i..<Suc i + m]"
    using Suc.IH[OF len] Suc.prems by simp
  moreover have "length (take ?sz xs) = ?sz"
    using Suc.prems by auto
  ultimately show ?case
    by (simp add: Let_def upt_rec[of i] del: upt_Suc)
qed

lemma torch_max_Max: "xs \<noteq> [] \<Longrightarrow> torch_max xs = Max (set xs)"
proof (cases xs)
  case Nil
  then show "xs \<noteq> [] \<Longrightarrow> ?thesis" by simp
next
  case (Cons a list)
  then show ?thesis using Max.set_eq_fold[of a list] by simp
qed

lemma noise_bound_Max:
  "s \<noteq> [] \<Longrightarrow> noise_bound t s = t * Max (abs ` set s)"
  by (simp add: noise_bound_def torch_max_Max)

lemma prepare_sample_short:
  "s0 \<noteq> [] \<Longrightarrow> real (length (denoise t s0)) \<le> wt * real sr \<Longrightarrow>
   prepare_sample mean std wt t (s0 # rest) sr = Inl UnboundLocalError"
  by (simp add: prepare_sample_def Let_def)

lemma prepare_sample_count:
  assumes "s0 \<noteq> []" and "0 < wt * real sr"
    and "wt * real sr < real (length (denoise t s0))"
  shows "\<exists>segs. prepare_sample mean std wt t (s0 # rest) sr = Inr segs \<and>
           int (length segs) = \<lfloor>real (length (denoise t s0)) / (wt * real sr)\<rfloor>"
proof -
  define number where "number = wt * real sr"
  define len where "len = length (denoise t s0)"
  define k where "k = \<lfloor>real len / number\<rfloor> + 1"
  have num0: "0 < number" "number < real len"
    using assms unfolding number_def len_def by blast+
  then have num: "0 < number" "number < real len" "number \<noteq> 0"
    by simp_all
  then have "0 \<le> real len / number" by simp
  then have fl: "0 \<le> \<lfloor>real len / number\<rfloor>" by (simp only: zero_le_floor)
  have kpos: "\<not> k \<le> 0" using fl unfolding k_def by linarith
  have kn: "int (nat k - 1) = \<lfloor>real len / number\<rfloor>"
    using fl unfolding k_def by linarith
  have "prepare_sample mean std wt t (s0 # rest) sr =
          Inr (map (normalize_segment mean std)
                (butlast (split_loop (denoise t s0) (len div nat k) (len mod nat k) 0 (nat k))))"
    using assms(1) num kpos
    by (simp add: prepare_sample_def Let_def tensor_split_def
        number_def[symmetric] len_def[symmetric] k_def[symmetric])
  moreover have "int (length (map (normalize_segment mean std)
                (butlast (split_loop (denoise t s0) (len div nat k) (len mod nat k) 0 (nat k)))))
               = \<lfloor>real len / number\<rfloor>"
    using kn by (simp add: length_split_loop)
  ultimately show ?thesis
    unfolding number_def len_def by blast
qed

lemma segment_lengths_16k:
  assumes "length (denoise t s0) = 48000"
  shows "map_sum id (map length) (prepare_sample mean std (1/5) t (s0 # rest) 16000)
           = Inr (replicate 15 3000)"
proof -
  let ?c = "denoise t s0"
  have ne: "s0 \<noteq> []" using assms by (auto simp: denoise_def)
  have p: "prepare_sample mean std (1/5) t (s0 # rest) 16000
             = Inr (map (normalize_segment mean std) (butlast (split_loop ?c 3000 0 0 16)))"
    using ne assms by (simp add: prepare_sample_def Let_def tensor_split_def)
  have "map length (split_loop ?c 3000 0 0 16)
          = map (\<lambda>j. if j < 0 then 3000 + 1 else 3000) [0..<0 + 16]"
    by (rule map_length_split_loop) (simp_all add: assms)
  then have "map length (split_loop ?c 3000 0 0 16) = replicate 16 3000"
    by (simp add: map_replicate_const)
  then have "map length (butlast (split_loop ?c 3000 0 0 16)) = butlast (replicate 16 3000)"
    by (simp add: map_butlast)
  also have "\<dots> = replicate 15 3000"
    by (simp add: butlast_conv_take)
  finally have "map length (map (normalize_segment mean std)
                              (butlast (split_loop ?c 3000 0 0 16)))
                  = replicate 15 3000"
    by (simp add: normalize_segment_def comp_def)
  then show ?thesis by (simp add: p)
qed

lemmas segmenter_eval =
  prepare_sample_def denoise_def noise_bound_def tensor_split_def normalize_segment_def
  Let_def split_loop_numeral

text \<open>
  Claim C2. A denoised waveform longer than \<open>N\<close> is cut into \<open>floor(len/N)\<close> segments, each
  of length exactly \<open>N\<close>. The count is the one \<open>prepare_sample_count\<close> gives, but the pieces
  are the near-equal sections of \<open>tensor_split\<close>, not chunks of \<open>N\<close> samples: with
  \<open>wavetime = 0.2\<close> at 15 Hz (\<open>N = 3\<close>), a waveform of seven samples above the noise bound
  yields two segments, of lengths 3 and 2, whatever the two reductions return.
\<close>

theorem segment_lengths_differ:
  "map_sum id (map length)
     (prepare_sample mean std (1/5) (1/100) [[1, 2, 3, 4, 5, 6, 7]] 15) = Inr [3, 2]"
  by (simp add: segmenter_eval)

text \<open>
  Claim C4. A denoised waveform no longer than \<open>N\<close> gives an empty sequence of segments. The
  code binds \<open>samples\<close> only when the waveform is longer than \<open>number\<close>, and the
  normalisation loop then reads an unbound local: two samples at 16 kHz with
  \<open>wavetime = 0.2\<close> end in an UnboundLocalError (\<open>prepare_sample_short\<close> is the general
  statement).
\<close>

theorem short_waveform_raises:
  "prepare_sample mean std (1/5) (1/100) [[1, 2]] 16000 = Inl UnboundLocalError"
  by (simp add: segmenter_eval)

text \<open>
  Claim C3, as stated: the gate keeps exactly the samples whose absolute amplitude is at
  least the bound. It fails at a sample that sits on the bound: the specification's rule
  keeps it, the code's strict comparison drops it.
\<close>

theorem denoise_boundary_counterexample:
  "denoise (1/100) [1, 1/100] = [1] \<and> spec_denoise (1/100) [1, 1/100] = [1, 1/100]"
  by (simp add: denoise_def noise_bound_def spec_denoise_def)

text \<open>
  Claim C3, amended. On a non-empty waveform the retained samples are, in their order,
  among the samples whose absolute amplitude is strictly above
  \<open>threshold * max |amplitude|\<close>, so every sample at or below the bound is discarded; and
  the non-negative samples that are retained are exactly the non-negative samples strictly
  above the bound.
\<close>

theorem denoise_gate:
  assumes "s \<noteq> []"
  shows "subseq (denoise t s) (filter (\<lambda>v. t * Max (abs ` set s) < \<bar>v\<bar>) s) \<and>
         filter (\<lambda>v. 0 \<le> v) (denoise t s)
           = filter (\<lambda>v. 0 \<le> v \<and> t * Max (abs ` set s) < \<bar>v\<bar>) s"
proof -
  let ?b = "t * Max (abs ` set s)"
  have b: "noise_bound t s = ?b" using assms by (rule noise_bound_Max)
  have "denoise t s = filter (\<lambda>v. ?b < v) (filter (\<lambda>v. ?b < \<bar>v\<bar>) s)"
    unfolding denoise_def b by simp (rule filter_cong, auto)
  then have "subseq (denoise t s) (filter (\<lambda>v. ?b < \<bar>v\<bar>) s)"
    by (metis subseq_filter_left)
  moreover have "filter (\<lambda>v. 0 \<le> v) (denoise t s) = filter (\<lambda>v. 0 \<le> v \<and> ?b < \<bar>v\<bar>) s"
    unfolding denoise_def b by simp (rule filter_cong, auto)
  ultimately show ?thesis by simp
qed

theorem denoise_gate_witness:
  "[3, -3, 0, 1/100] \<noteq> ([]::real list) \<and>
   subseq (denoise (1/100) [3, -3, 0, 1/100])
     (filter (\<lambda>v. 1/100 * Max (abs ` set [3, -3, 0, 1/100]) < \<bar>v\<bar>) [3, -3, 0, 1/100]) \<and>
   filter (\<lambda>v. 0 \<le> v) (denoise (1/100) [3, -3, 0, 1/100]) = [3]"
  using denoise_gate[of "[3, -3, 0, 1/100]" "1/100"] by simp

text \<open>
  Claim C8, as stated: normalising a chunk of zero standard deviation raises
  DegenerateSegmentError instead of returning NaN values. The code has no such error. A
  waveform of seven samples of value 5 (sums and quotients of which are exact in float32,
  so that the reductions return the exact mean 5 and deviation 0) comes back as two
  segments that hold nothing but NaN.
\<close>

theorem constant_waveform_counterexample:
  "prepare_sample exact_mean exact_std (1/5) (1/100) [[5, 5, 5, 5, 5, 5, 5]] 15
     = Inr [[NaN, NaN, NaN], [NaN, NaN]]"
  by (simp add: segmenter_eval exact_mean_def exact_std_def)

text \<open>
  Claim C8, amended. Normalising a retained chunk for which \<open>torch.std\<close> returns zero raises
  no error, and no entry of the result is finite: it is NaN at every sample equal to the
  value \<open>torch.mean\<close> returns and an infinity, of the sign of the difference, at every other
  sample. Nothing is assumed about the two reductions beyond the zero deviation.
\<close>

theorem normalize_zero_std:
  "std s = Val 0 \<Longrightarrow>
   normalize_segment mean std s
     = map (\<lambda>v. if v = mean s then NaN else if mean s < v then PosInf else NegInf) s"
  by (simp add: normalize_segment_def)

text \<open>Witness for C8: the chunk \<open>[5, 5, 5]\<close>, whose mean and deviation are exact.\<close>

theorem normalize_zero_std_witness:
  "exact_std [5, 5, 5] = Val 0 \<and>
   normalize_segment exact_mean exact_std [5, 5, 5] = [NaN, NaN, NaN]"
proof -
  have z: "exact_std [5, 5, 5] = Val 0" by (simp add: exact_std_def exact_mean_def)
  have m: "exact_mean [5, 5, 5] = 5" by (simp add: exact_mean_def)
  show ?thesis
    using z m
      normalize_zero_std[where std = exact_std and s = "[5, 5, 5]" and mean = exact_mean]
    by simp
qed

section \<open>Properties of the sinc layer\<close>

lemma filter_params_fst:
  "fst (filter_params F g sr) =
     (map (\<lambda>i. g i * sr / 2) [0..<F],
      map (\<lambda>i. g i * sr / 2 + \<bar>g i * sr / 2 - g (i + F) * sr / 2\<bar>) [0..<F])"
  by (auto simp: filter_params_def torch_rand_def Let_def intro!: nth_equalityI)

lemmas rng_eval =
  filter_params_fst rng_of_def upt_rec[of _ "numeral k" for k] upt_rec[of _ "Suc k" for k]






text \<open>\<open>torch.sinc\<close> multiplies its argument by \<open>\<pi>\<close> before taking \<open>sin(x)/x\<close>, so the
  code's kernel is the specified one at cutoffs scaled by \<open>\<pi>\<close>, divided by \<open>\<pi>\<close>.\<close>

lemma torch_sinc_spec: "torch_sinc x = spec_sinc (pi * x)"
  by (simp add: torch_sinc_def spec_sinc_def)

lemma g_filter_spec_g: "g_filter f_1 f_2 n = spec_g (pi * f_1) (pi * f_2) n / pi"
  by (simp add: g_filter_def spec_g_def torch_sinc_spec algebra_simps diff_divide_distrib)

text \<open>
  Claim C5. The unwindowed kernel value is
  \<open>2 f2 sinc(2\<pi> f2 n) - 2 f1 sinc(2\<pi> f1 n)\<close> with \<open>sinc(x) = sin(x)/x\<close>. The code passes
  \<open>2\<pi> f n\<close> to \<open>torch.sinc\<close>, the normalised sinc. For the filter with \<open>f1 = 0\<close>,
  \<open>f2 = 1/4\<close> (draws 0 and 1/32000 at 16 kHz) the value at offset 1 is
  \<open>sin(\<pi>\<^sup>2/2)/\<pi>\<^sup>2\<close>, below the specified \<open>1/\<pi>\<close>.
\<close>

theorem g_filter_differs_from_spec:
  "fst (filter_params 1 (rng_of [0, 1/32000]) 16000) = ([0], [1/4]) \<and>
   g_filter 0 (1/4) 1 = sin (pi * pi / 2) / (pi * pi) \<and>
   spec_g 0 (1/4) 1 = 1 / pi \<and>
   g_filter 0 (1/4) 1 < spec_g 0 (1/4) 1"
proof -
  have a: "fst (filter_params 1 (rng_of [0, 1/32000]) 16000) = ([0], [1/4])"
    by (simp add: rng_eval)
  have g: "g_filter 0 (1/4) 1 = sin (pi * pi / 2) / (pi * pi)"
    by (simp add: g_filter_def torch_sinc_def)
  have s: "spec_g 0 (1/4) 1 = 1 / pi"
    by (simp add: spec_g_def spec_sinc_def)
  have "sin (pi * pi / 2) / (pi * pi) \<le> 1 / (pi * pi)"
    by (intro divide_right_mono) simp_all
  also have "1 / (pi * pi) < 1 / pi"
    using pi_ge_two by (simp add: field_simps)
  finally show ?thesis using a g s by simp
qed

text \<open>
  Claim C6, as stated: every filter has \<open>0 \<le> low < high \<le> sample_rate/2\<close>. With draws
  0.9 and 0.1 at 16 kHz the first filter has cutoffs 7200 and 13600, above the Nyquist
  frequency 8000; with two equal draws the second filter has equal cutoffs.
\<close>

theorem cutoff_above_nyquist_counterexample:
  "fst (filter_params 2 (rng_of [9/10, 1/2, 1/10, 1/2]) 16000)
     = ([7200, 4000], [13600, 4000]) \<and> (16000::real) / 2 < 13600"
  by (simp add: rng_eval)

text \<open>
  Claim C6, amended. With draws in \<open>[0, 1)\<close> and a positive sample rate, every filter has
  \<open>0 \<le> low < sample_rate/2\<close> and \<open>low \<le> high < sample_rate\<close>.
\<close>

theorem filter_params_bounds:
  assumes "list_all (\<lambda>u. 0 \<le> u \<and> u < 1) (map g [0..<2 * F])"
    and "0 < sr"
    and "fst (filter_params F g sr) = (f_1, f_2)"
  shows "length f_1 = F \<and> length f_2 = F \<and>
         list_all2 (\<lambda>a b. 0 \<le> a \<and> a < sr / 2 \<and> a \<le> b \<and> b < sr) f_1 f_2"
proof -
  have f1: "f_1 = map (\<lambda>i. g i * sr / 2) [0..<F]"
    and f2: "f_2 = map (\<lambda>i. g i * sr / 2 + \<bar>g i * sr / 2 - g (i + F) * sr / 2\<bar>) [0..<F]"
    using assms(3) by (simp_all add: filter_params_fst)
  have draw: "0 \<le> g j \<and> g j < 1" if "j < 2 * F" for j
    using assms(1) that by (simp add: list_all_iff)
  have "0 \<le> g i * sr / 2 \<and> g i * sr / 2 < sr / 2 \<and>
        g i * sr / 2 \<le> g i * sr / 2 + \<bar>g i * sr / 2 - g (i + F) * sr / 2\<bar> \<and>
        g i * sr / 2 + \<bar>g i * sr / 2 - g (i + F) * sr / 2\<bar> < sr" if "i < F" for i
  proof -
    have a: "0 \<le> g i" "g i < 1" using draw[of i] that by simp_all
    have c: "0 \<le> g (i + F)" "g (i + F) < 1" using draw[of "i + F"] that by simp_all
    have a1: "0 \<le> g i * sr" using a assms(2) by simp
    have a2: "g i * sr < sr" using a assms(2) by simp
    have c1: "0 \<le> g (i + F) * sr" using c assms(2) by simp
    have c2: "g (i + F) * sr < sr" using c assms(2) by simp
    show ?thesis using a1 a2 c1 c2 by linarith
  qed
  then show ?thesis
    unfolding f1 f2 by (simp add: list_all2_conv_all_nth)
qed

text \<open>Witness for C6: one filter at 16 kHz with draws 0.9 and 0.1.\<close>

theorem filter_params_bounds_witness:
  "list_all (\<lambda>u. 0 \<le> u \<and> u < 1) (map (rng_of [9/10, 1/10]) [0..<2 * 1]) \<and>
   (0::real) < 16000 \<and>
   fst (filter_params 1 (rng_of [9/10, 1/10]) 16000) = ([7200], [13600]) \<and>
   list_all2 (\<lambda>a b. 0 \<le> a \<and> a < 16000 / 2 \<and> a \<le> b \<and> b < 16000) [7200] [13600::real]"
proof -
  have h: "list_all (\<lambda>u. 0 \<le> u \<and> u < 1) (map (rng_of [9/10, 1/10]) [0..<2 * 1])"
    by (simp add: rng_eval)
  have t: "fst (filter_params 1 (rng_of [9/10, 1/10]) 16000) = ([7200], [13600])"
    by (simp add: rng_eval)
  show ?thesis
    using h t filter_params_bounds[OF h _ t] by simp
qed

subsection \<open>The convolution and the return statement\<close>

lemma length_hamming_window: "length (hamming_window l) = l"
  by (simp add: hamming_window_def)

lemma length_result_filters:
  "length (result_filters f_1 f_2 l) = min (length f_1) (length f_2)"
  by (simp add: result_filters_def)

lemma result_filters_rows:
  "k \<in> set (result_filters f_1 f_2 l) \<Longrightarrow> length k = l"
  by (auto simp: result_filters_def length_hamming_window)

lemma forward_filters_shape:
  "length (forward_filters F l g sr) = F \<and>
   list_all (\<lambda>k. length k = l) (forward_filters F l g sr)"
proof -
  obtain f_1 f_2 g' where p: "filter_params F g sr = ((f_1, f_2), g')"
    by (metis prod.exhaust)
  then have "fst (filter_params F g sr) = (f_1, f_2)" by simp
  then have "length f_1 = F" "length f_2 = F"
    by (auto simp: filter_params_fst)
  then show ?thesis
    using p by (simp add: forward_filters_def length_result_filters list_all_iff result_filters_rows)
qed

lemma conv1d_ok:
  assumes "weight \<noteq> []" and "list_all (\<lambda>k. length k = l) weight" and "0 < l"
    and "list_all (\<lambda>row. l \<le> length row) x"
  shows "conv1d x weight = Inr (map (\<lambda>row. map (correlate row) weight) x)"
  using assms by (auto simp: conv1d_def list_all_iff list_ex_iff)

lemma conv1d_short:
  assumes "weight \<noteq> []" and "list_all (\<lambda>k. length k = l) weight"
    and "\<not> list_all (\<lambda>row. l \<le> length row) x"
  shows "conv1d x weight = Inl RuntimeError"
proof -
  obtain row where r: "row \<in> set x" "length row < l"
    using assms(3) by (auto simp: list_all_iff)
  obtain k where k: "k \<in> set weight" using assms(1) by (cases weight) auto
  then have "length k = l" using assms(2) by (simp add: list_all_iff)
  then have "list_ex (\<lambda>row. list_ex (\<lambda>k. length row < length k) weight) x"
    using r k by (auto simp: list_ex_iff)
  then show ?thesis by (simp add: conv1d_def)
qed

lemma length_correlate: "length (correlate row k) = length row - length k + 1"
  by (simp add: correlate_def)

lemma correlate_nth:
  "t \<le> length row - length k \<Longrightarrow>
   correlate row k ! t = (\<Sum>j<length k. row ! (t + j) * k ! j)"
  by (simp add: correlate_def sum_list_sum_nth atLeast0LessThan del: upt_Suc)

lemma forward_results_entries:
  assumes "0 < F" and "0 < l" and "list_all (\<lambda>row. length row = N) x" and "l \<le> N"
  shows "\<exists>out. forward_results F l g x sr = Inr out \<and> length out = length x \<and>
           list_all (\<lambda>chans. length chans = F \<and>
                       list_all (\<lambda>ys. length ys = N - l + 1) chans) out \<and>
           (\<forall>b f t. b < length x \<and> f < F \<and> t \<le> N - l \<longrightarrow>
              out ! b ! f ! t
                = (\<Sum>k<l. x ! b ! (t + k) * forward_filters F l g sr ! f ! k))"
proof -
  let ?w = "forward_filters F l g sr"
  have sh: "length ?w = F" "list_all (\<lambda>k. length k = l) ?w"
    using forward_filters_shape[of F l g sr] by simp_all
  then have ne: "?w \<noteq> []" using assms(1) by auto
  have rows: "list_all (\<lambda>row. l \<le> length row) x"
    using assms(3,4) by (simp add: list_all_iff)
  let ?out = "map (\<lambda>row. map (correlate row) ?w) x"
  have r: "forward_results F l g x sr = Inr ?out"
    unfolding forward_results_def by (rule conv1d_ok[OF ne sh(2) assms(2) rows])
  have wl: "length (?w ! f) = l" if "f < F" for f
    using sh that by (simp add: list_all_length)
  have xl: "length (x ! b) = N" if "b < length x" for b
    using assms(3) that by (simp add: list_all_length)
  have shape: "list_all (\<lambda>chans. length chans = F \<and>
                       list_all (\<lambda>ys. length ys = N - l + 1) chans) ?out"
    using sh assms(3) by (auto simp: list_all_iff length_correlate)
  have ent: "?out ! b ! f ! t = (\<Sum>k<l. x ! b ! (t + k) * ?w ! f ! k)"
    if "b < length x" "f < F" "t \<le> N - l" for b f t
    using that sh(1) wl[of f] xl[of b] correlate_nth[of t "x ! b" "?w ! f"] by simp
  show ?thesis
    using r shape ent by (intro exI[of _ ?out]) simp
qed

lemma forward_cases:
  assumes "0 < F" and "0 < l"
  shows "forward F l g x sr =
           (if list_all (\<lambda>row. l \<le> length row) x then Inl NameError else Inl RuntimeError)"
proof -
  let ?w = "forward_filters F l g sr"
  have sh: "length ?w = F" "list_all (\<lambda>k. length k = l) ?w"
    using forward_filters_shape[of F l g sr] by simp_all
  then have ne: "?w \<noteq> []" using assms(1) by auto
  show ?thesis
  proof (cases "list_all (\<lambda>row. l \<le> length row) x")
    case True
    then show ?thesis
      using conv1d_ok[OF ne sh(2) assms(2) True]
      by (simp add: forward_def forward_results_def)
  next
    case False
    then show ?thesis
      using conv1d_short[OF ne sh(2) False]
      by (simp add: forward_def forward_results_def)
  qed
qed

text \<open>
  Claim C7. \<open>forward\<close> returns an output of shape \<open>(B, F, N-L+1)\<close> holding the
  cross-correlation sums. The local \<open>results\<close> is that tensor (\<open>forward_results_entries\<close>),
  but the return statement names \<open>resultsl\<close>: on a batch of two segments of four samples,
  two filters and a window of three, \<open>forward\<close> ends in a NameError and returns nothing.
\<close>

theorem forward_raises_NameError:
  "forward 2 3 (rng_of [0, 1/2, 1/4, 1/2]) [[1, 2, 3, 4], [5, 6, 7, 8]] 16000 = Inl NameError"
  by (simp add: forward_cases)

text \<open>
  Claim C9, as stated: for every input batch \<open>forward\<close> raises the unbound-name error at
  its return statement. A segment shorter than the window stops the pass earlier, in the
  convolution, with a RuntimeError.
\<close>

theorem short_segment_counterexample:
  "forward 1 3 (rng_of [0, 1/2]) [[1]] 16000 = Inl RuntimeError"
  by (simp add: forward_cases)

text \<open>
  Claim C9, amended. \<open>forward\<close> never returns a feature map. With at least one filter and
  a window of at least one point it raises the unbound-name error at its return statement
  when every segment is at least as long as the window, and the RuntimeError of the
  convolution when some segment is shorter.
\<close>

theorem forward_never_returns:
  "isl (forward F l g x sr) \<and>
   (0 < F \<and> 0 < l \<longrightarrow>
      forward F l g x sr =
        (if list_all (\<lambda>row. l \<le> length row) x then Inl NameError else Inl RuntimeError))"
  by (auto simp: forward_cases) (simp add: forward_def split: sum.splits)

text \<open>Witness for C9: two filters, a window of three, one segment of four samples.\<close>

theorem forward_never_returns_witness:
  "isl (forward 2 3 (rng_of [0, 1/2, 1/4, 1/2]) [[1, 2, 3, 4]] 16000) \<and>
   (0::nat) < 2 \<and> (0::nat) < 3 \<and>
   forward 2 3 (rng_of [0, 1/2, 1/4, 1/2]) [[1, 2, 3, 4]] 16000 = Inl NameError"
  using forward_never_returns[of 2 3 "rng_of [0, 1/2, 1/4, 1/2]" "[[1, 2, 3, 4]]" 16000]
  by simp

section \<open>Properties of the dataset\<close>

lemma py_get_map: "py_get xs i = Inr a \<Longrightarrow> py_get (map h xs) i = Inr (h a)"
  by (auto simp: py_get_def split: if_splits)

lemma py_get_mem: "py_get xs i = Inr a \<Longrightarrow> a \<in> set xs"
  by (auto simp: py_get_def split: if_splits)

lemma index_of_nth: "a \<in> set xs \<Longrightarrow> index_of a xs < length xs \<and> xs ! index_of a xs = a"
  by (induction xs) auto

lemma init_fields:
  assumes "init fs m wt th = Inr self" and "m \<noteq> ''test''"
  shows "files self = sort fs" and "wavetime self = wt" and "trashhold self = th"
    and "mode self = m" and "labels self = map parent_name (files self)"
    and "classes self = sort (remdups (labels self))"
    and "m = ''train'' \<or> m = ''val''"
  using assms by (auto simp: init_def Let_def DATA_MODES_def split: if_splits)

text \<open>
  When \<open>_prepare_sample\<close> returns, the triple is the one claim C10 describes: in train and
  val modes, for a valid index whose file has a denoised waveform longer than
  \<open>wavetime * sample_rate > 0\<close>, \<open>f\<close> and \<open>y\<close> have one entry per segment of \<open>x\<close>, every
  entry of \<open>f\<close> is the file's sample rate and every entry of \<open>y\<close> is the position of the
  file's label among the encoder's classes.
\<close>

lemma getitem_returns_triple:
  assumes "init fs m wt th = Inr self" and "m \<noteq> ''test''"
    and "py_get (files self) index = Inr file"
    and "load file = Some (s0 # rest, sr)"
    and "s0 \<noteq> []" and "0 < wt * real sr"
    and "wt * real sr < real (length (denoise th s0))"
  shows "\<exists>x y. getitem mean std load self index
                 = Inr (Train_item x (replicate (length x) (real sr))
                          (replicate (length x) (real y))) \<and>
               prepare_sample mean std wt th (s0 # rest) sr = Inr x \<and>
               int (length x) = \<lfloor>real (length (denoise th s0)) / (wt * real sr)\<rfloor> \<and>
               y < length (classes self) \<and> classes self ! y = parent_name file"
proof -
  note f = init_fields[OF assms(1,2)]
  obtain x where x: "prepare_sample mean std wt th (s0 # rest) sr = Inr x"
    and n: "int (length x) = \<lfloor>real (length (denoise th s0)) / (wt * real sr)\<rfloor>"
    using prepare_sample_count[OF assms(5,6,7), of mean std rest] by blast
  have lab: "py_get (labels self) index = Inr (parent_name file)"
    unfolding f(5) using assms(3) by (rule py_get_map)
  then have "parent_name file \<in> set (labels self)" by (rule py_get_mem)
  then have mem: "parent_name file \<in> set (classes self)" by (simp add: f(6))
  define y where "y = index_of (parent_name file) (classes self)"
  have y: "y < length (classes self)" "classes self ! y = parent_name file"
    using index_of_nth[OF mem] by (simp_all add: y_def)
  have "getitem mean std load self index
          = Inr (Train_item x (replicate (length x) (real sr)) (replicate (length x) (real y)))"
    using assms(2,3,4) x lab mem
    by (simp add: getitem_def f(2,3,4) transform_def y_def Let_def)
  then show ?thesis using x n y by blast
qed

text \<open>
  Claim C10. In train and val modes \<open>__getitem__\<close> returns a triple \<open>(x, f, y)\<close> for every
  index, \<open>f\<close> and \<open>y\<close> as long as \<open>x\<close>. For a file whose denoised waveform is not longer
  than \<open>wavetime * sample_rate\<close> the triple would be three empty sequences, but the call
  ends in the UnboundLocalError of \<open>_prepare_sample\<close> and returns nothing: a dataset of one
  file of two samples at 16 kHz, read at index 0 in train mode.
\<close>

theorem short_file_raises:
  "init [[''data'', ''spk1'', ''a.flac'']] ''train'' (1/5) (1/100)
     = Inr \<lparr>files = [[''data'', ''spk1'', ''a.flac'']], wavetime = 1/5, trashhold = 1/100,
            mode = ''train'', labels = [''spk1''], classes = [''spk1'']\<rparr> \<and>
   getitem mean std (map_of [([''data'', ''spk1'', ''a.flac''], ([[1, 2]], 16000))])
     \<lparr>files = [[''data'', ''spk1'', ''a.flac'']], wavetime = 1/5, trashhold = 1/100,
      mode = ''train'', labels = [''spk1''], classes = [''spk1'']\<rparr> 0
     = Inl UnboundLocalError"
  by (simp add: init_def DATA_MODES_def parent_name_def getitem_def py_get_def Let_def
      prepare_sample_def denoise_def noise_bound_def)

end
